theory Spec2Isabelle
  imports Main "HOL-Library.Word"
begin

unbundle bit_operations_syntax

section \<open>Vulkan resources: the data model of Resource.h\<close>

text \<open>
  The driver's handle types (\<^verbatim>\<open>VkBuffer\<close>, \<^verbatim>\<open>VkImage\<close>, \<^verbatim>\<open>VkFence\<close>, \<^verbatim>\<open>VkDevice\<close>, the
  allocator's \<^verbatim>\<open>VmaAllocator\<close> and \<^verbatim>\<open>VmaAllocation\<close>) are declared in headers that
  Resource.h only includes. They are opaque 64-bit values here, and
  \<^verbatim>\<open>VK_NULL_HANDLE\<close> is the value 0, as in the Vulkan headers. The driver's
  enumerations are 32-bit values compared by value.
\<close>

type_synonym vk_handle = "64 word"
type_synonym VkDeviceSize = "64 word"
type_synonym VkFilter = "32 word"
type_synonym VkSamplerMipmapMode = "32 word"
type_synonym VkSamplerAddressMode = "32 word"
type_synonym VkBorderColor = "32 word"
type_synonym VkImageLayout = "32 word"
type_synonym size_t = "64 word"

definition VK_NULL_HANDLE :: vk_handle where
  "VK_NULL_HANDLE = 0"

definition UINT64_MAX :: "64 word" where
  "UINT64_MAX = 18446744073709551615"

subsection \<open>Memory\<close>

text \<open>
  Modelled from the spec: \<^verbatim>\<open>VmaAllocationInfo\<close> is declared in the allocator's header,
  which is not part of Resource.h; the specification names its content as the
  allocation's offset, its size and the mapped host address, if any.
\<close>

record VmaAllocationInfo =
  info_offset :: VkDeviceSize
  info_size :: VkDeviceSize
  pMappedData :: vk_handle

record Memory =
  allocator :: vk_handle
  allocation :: vk_handle
  allocation_info :: VmaAllocationInfo

subsection \<open>Buffer\<close>

record Buffer_Object =
  handle :: vk_handle
  offset :: VkDeviceSize
  range :: VkDeviceSize

record Buffer =
  object :: Buffer_Object
  memory :: Memory

text \<open>\<^verbatim>\<open>Resource::Buffer::Object::operator bool\<close> and \<^verbatim>\<open>Resource::Buffer::operator bool\<close>.\<close>

definition Buffer_Object_bool :: "Buffer_Object \<Rightarrow> bool" where
  "Buffer_Object_bool obj = (VK_NULL_HANDLE \<noteq> Buffer_Object.handle obj)"

definition Buffer_bool :: "Buffer \<Rightarrow> bool" where
  "Buffer_bool b = Buffer_Object_bool (Buffer.object b)"

subsection \<open>Image and its sampler descriptor\<close>

text \<open>
  The descriptor's first field is \<^verbatim>\<open>filter\<close> in the source; it is \<open>filter_mode\<close> here,
  since \<open>filter\<close> is the list function of HOL.
\<close>

record Sampler_Descriptor =
  filter_mode :: VkFilter
  mipmap_mode :: VkSamplerMipmapMode
  address_mode :: VkSamplerAddressMode
  border :: VkBorderColor

record Image_Object =
  handle :: vk_handle
  layout :: VkImageLayout
  view :: vk_handle
  sampler :: vk_handle

record Image =
  object :: Image_Object
  memory :: Memory

text \<open>\<^verbatim>\<open>Resource::Image::Object::operator bool\<close> and \<^verbatim>\<open>Resource::Image::operator bool\<close>.\<close>

definition Image_Object_bool :: "Image_Object \<Rightarrow> bool" where
  "Image_Object_bool obj = (VK_NULL_HANDLE \<noteq> Image_Object.handle obj)"

definition Image_bool :: "Image \<Rightarrow> bool" where
  "Image_bool i = Image_Object_bool (Image.object i)"

text \<open>\<^verbatim>\<open>operator==\<close> on sampler descriptors: the four comparisons, in the source's order.\<close>

definition operator_eq :: "Sampler_Descriptor \<Rightarrow> Sampler_Descriptor \<Rightarrow> bool" where
  "operator_eq d1 d2 =
     ((filter_mode d1 = filter_mode d2) \<and>
      (mipmap_mode d1 = mipmap_mode d2) \<and>
      (address_mode d1 = address_mode d2) \<and>
      (border d1 = border d2))"

text \<open>
  \<^verbatim>\<open>Factory::Hasher::operator()\<close> hands the four fields, in this order, to
  \<^verbatim>\<open>c10::get_hash\<close>. That function lives in \<^verbatim>\<open>c10/util/hash.h\<close>, outside Resource.h,
  so it is the parameter \<open>get_hash\<close> of the model.
\<close>

definition Hasher ::
  "(VkFilter \<Rightarrow> VkSamplerMipmapMode \<Rightarrow> VkSamplerAddressMode \<Rightarrow> VkBorderColor \<Rightarrow> size_t)
     \<Rightarrow> Sampler_Descriptor \<Rightarrow> size_t" where
  "Hasher get_hash descriptor =
     get_hash (filter_mode descriptor) (mipmap_mode descriptor)
       (address_mode descriptor) (border descriptor)"

subsection \<open>Fence\<close>

record Fence =
  device :: vk_handle
  handle :: vk_handle

text \<open>\<^verbatim>\<open>Resource::Fence::operator bool\<close>.\<close>

definition Fence_bool :: "Fence \<Rightarrow> bool" where
  "Fence_bool f =
     ((VK_NULL_HANDLE \<noteq> device f) \<and> (VK_NULL_HANDLE \<noteq> Fence.handle f))"

section \<open>Scoped memory mapping\<close>

subsection \<open>Access flags and the pointer type\<close>

type_synonym Flags = "8 word"

text \<open>\<^verbatim>\<open>enum Type : Flags { Read = 1u << 0u, Write = 1u << 1u }\<close>.\<close>

definition Read :: Flags where
  "Read = push_bit 0 1"

definition Write :: Flags where
  "Write = push_bit 1 1"

text \<open>
  The types the templates compute with:
  \<^item> \<open>Named\<close>: an object type without top-level const (a scalar, class or array
    type), or \<^verbatim>\<open>void\<close>, given by its name;
  \<^item> \<open>Const\<close>: the const-qualified version of a type;
  \<^item> \<open>PointerTo\<close>: the pointer to a type;
  \<^item> \<open>LvalueRef\<close>, \<open>RvalueRef\<close>: the two kinds of reference to a type;
  \<^item> \<open>Function\<close>: a function type, with its return type and parameter types; the
    flag says that the function type carries a cv- or ref-qualifier, as in
    \<^verbatim>\<open>void() const\<close>.

  \<open>add_const_t\<close>, \<open>add_pointer_t\<close> and \<open>conditional_t\<close> are the standard library's
  type transformations. \<^verbatim>\<open>std::add_const_t\<close> leaves a type that is const already, a
  reference and a function type as they are. \<^verbatim>\<open>std::add_pointer_t\<close> of a reference is
  the pointer to the referred type, and it leaves a function type with a cv- or
  ref-qualifier, to which no pointer can be formed, as it is.
\<close>

datatype cpp_type =
    Named string
  | Const cpp_type
  | PointerTo cpp_type
  | LvalueRef cpp_type
  | RvalueRef cpp_type
  | Function cpp_type "cpp_type list" bool

fun add_const_t :: "cpp_type \<Rightarrow> cpp_type" where
  "add_const_t (Const t) = Const t"
| "add_const_t (LvalueRef t) = LvalueRef t"
| "add_const_t (RvalueRef t) = RvalueRef t"
| "add_const_t (Function r ps q) = Function r ps q"
| "add_const_t t = Const t"

fun add_pointer_t :: "cpp_type \<Rightarrow> cpp_type" where
  "add_pointer_t (LvalueRef t) = PointerTo t"
| "add_pointer_t (RvalueRef t) = PointerTo t"
| "add_pointer_t (Function r ps True) = Function r ps True"
| "add_pointer_t t = PointerTo t"

fun is_reference_t :: "cpp_type \<Rightarrow> bool" where
  "is_reference_t (LvalueRef t) = True"
| "is_reference_t (RvalueRef t) = True"
| "is_reference_t t = False"

fun is_function_t :: "cpp_type \<Rightarrow> bool" where
  "is_function_t (Function r ps q) = True"
| "is_function_t t = False"

definition conditional_t :: "bool \<Rightarrow> cpp_type \<Rightarrow> cpp_type \<Rightarrow> cpp_type" where
  "conditional_t b t f = (if b then t else f)"

fun is_const_t :: "cpp_type \<Rightarrow> bool" where
  "is_const_t (Const t) = True"
| "is_const_t t = False"

text \<open>
  A pointer through which the pointee can be written: a pointer to an object that is
  not const.
\<close>

fun writable_pointer :: "cpp_type \<Rightarrow> bool" where
  "writable_pointer (PointerTo t) = (\<not> is_const_t t \<and> \<not> is_function_t t)"
| "writable_pointer t = False"

text \<open>\<^verbatim>\<open>Access::Pointer<Type, access>\<close>.\<close>

definition Access_Pointer :: "cpp_type \<Rightarrow> Flags \<Rightarrow> cpp_type" where
  "Access_Pointer Type access =
     add_pointer_t (conditional_t (0 \<noteq> (access AND Write)) Type (add_const_t Type))"

subsection \<open>Scope, Data and the two map templates\<close>

text \<open>
  \<^verbatim>\<open>Memory::Scope\<close> keeps the allocator, the allocation and the access flags (the
  members \<^verbatim>\<open>allocator_\<close>, \<^verbatim>\<open>allocation_\<close>, \<^verbatim>\<open>access_\<close>). \<^verbatim>\<open>Data<Pointer>\<close> is
  \<^verbatim>\<open>Handle<Pointer, Scope>\<close>: the mapped address, typed as \<^verbatim>\<open>Pointer\<close>, together with
  the scope that releases it.
\<close>

record Scope =
  scope_allocator :: vk_handle
  scope_allocation :: vk_handle
  scope_access :: Flags

record Data =
  pointer_type :: cpp_type
  payload :: vk_handle
  deleter :: Scope

datatype compile_error =
    Static_Assertion string
  | No_Matching_Function
  | Ambiguous_Call
  | Use_Of_Deleted_Function
  | Inaccessible_Member

text \<open>
  The out-of-class definitions of the two templates. \<^verbatim>\<open>void* map(const Memory&)\<close> is
  only declared in them and defined elsewhere, so it is the parameter \<open>map_fn\<close>. The
  first template parameter has no name in the definitions and is not used by them.

  Instantiating the mutable template evaluates its \<^verbatim>\<open>static_assert\<close>: the result is
  either the compile error, or the function that runs on a memory object.
\<close>

definition Memory_map_const ::
  "(Memory \<Rightarrow> vk_handle) \<Rightarrow> cpp_type \<Rightarrow> cpp_type \<Rightarrow> Memory \<Rightarrow> Data" where
  "Memory_map_const map_fn Type Pointer this =
     \<lparr>pointer_type = Pointer,
      payload = map_fn this,
      deleter = \<lparr>scope_allocator = allocator this, scope_allocation = allocation this,
                 scope_access = Read\<rparr>\<rparr>"

definition Memory_map ::
  "(Memory \<Rightarrow> vk_handle) \<Rightarrow> cpp_type \<Rightarrow> Flags \<Rightarrow> cpp_type
     \<Rightarrow> compile_error + (Memory \<Rightarrow> Data)" where
  "Memory_map map_fn Type kAccess Pointer =
     (if \<not> ((kAccess = Read) \<or> (kAccess = Write) \<or> (kAccess = (Read OR Write)))
      then Inl (Static_Assertion ''Invalid memory access!'')
      else Inr (\<lambda>this.
        \<lparr>pointer_type = Pointer,
         payload = map_fn this,
         deleter = \<lparr>scope_allocator = allocator this, scope_allocation = allocation this,
                    scope_access = kAccess\<rparr>\<rparr>))"

text \<open>
  The calls \<^verbatim>\<open>map<T>()\<close> and \<^verbatim>\<open>map<T, kAccess>()\<close>: the pointer type is left to its
  default template argument.
\<close>

definition map_T :: "(Memory \<Rightarrow> vk_handle) \<Rightarrow> cpp_type \<Rightarrow> Memory \<Rightarrow> Data" where
  "map_T map_fn T = Memory_map_const map_fn T (Access_Pointer T Read)"

definition map_T_kAccess ::
  "(Memory \<Rightarrow> vk_handle) \<Rightarrow> cpp_type \<Rightarrow> Flags \<Rightarrow> compile_error + (Memory \<Rightarrow> Data)" where
  "map_T_kAccess map_fn T kAccess = Memory_map map_fn T kAccess (Access_Pointer T kAccess)"

subsection \<open>The four declarations of map and the resolution of a call\<close>

text \<open>
  \<^verbatim>\<open>Memory\<close> declares four member function templates named \<^verbatim>\<open>map\<close>, none of which
  takes a function argument:
  \<^item> \<^verbatim>\<open>template<typename Type, typename Pointer = Access::Pointer<Type, Access::Read>>
    Data<Pointer> map() const &\<close>;
  \<^item> \<^verbatim>\<open>template<typename Type, Access::Flags kAccess,
    typename Pointer = Access::Pointer<Type, kAccess>> Data<Pointer> map() &\<close>;
  \<^item> \<^verbatim>\<open>template<typename Type, typename Pointer> Data<Pointer> map() const && = delete\<close>,
    private;
  \<^item> \<^verbatim>\<open>template<typename Type, Access::Flags kAccess, typename Pointer>
    Data<Pointer> map() && = delete\<close>, private.

  A declaration is described by its template parameters (a type parameter with or
  without a default argument, or the flags parameter), its const and reference
  qualifiers, whether it is deleted, and its access.
\<close>

datatype template_argument = Type_Arg cpp_type | Value_Arg Flags

datatype template_parameter =
    Typename "(template_argument list \<Rightarrow> cpp_type option) option"
  | Access_Flags

datatype ref_qualifier = Lvalue_Qualified | Rvalue_Qualified

datatype member_access = Public | Private

datatype value_category = Lvalue | Rvalue

record member_template =
  template_parameters :: "template_parameter list"
  const_qualified :: bool
  ref_qualified :: ref_qualifier
  deleted :: bool
  access :: member_access

text \<open>
  The default arguments of \<^verbatim>\<open>Pointer\<close>, as functions of the template arguments
  before it.
\<close>

fun default_Pointer_Read :: "template_argument list \<Rightarrow> cpp_type option" where
  "default_Pointer_Read [Type_Arg Type] = Some (Access_Pointer Type Read)"
| "default_Pointer_Read args = None"

fun default_Pointer_kAccess :: "template_argument list \<Rightarrow> cpp_type option" where
  "default_Pointer_kAccess [Type_Arg Type, Value_Arg kAccess] =
     Some (Access_Pointer Type kAccess)"
| "default_Pointer_kAccess args = None"

datatype map_overload = Map_Const_Lvalue | Map_Lvalue | Map_Const_Rvalue | Map_Rvalue

fun declaration_of :: "map_overload \<Rightarrow> member_template" where
  "declaration_of Map_Const_Lvalue =
     \<lparr>template_parameters = [Typename None, Typename (Some default_Pointer_Read)],
      const_qualified = True, ref_qualified = Lvalue_Qualified,
      deleted = False, access = Public\<rparr>"
| "declaration_of Map_Lvalue =
     \<lparr>template_parameters =
        [Typename None, Access_Flags, Typename (Some default_Pointer_kAccess)],
      const_qualified = False, ref_qualified = Lvalue_Qualified,
      deleted = False, access = Public\<rparr>"
| "declaration_of Map_Const_Rvalue =
     \<lparr>template_parameters = [Typename None, Typename None],
      const_qualified = True, ref_qualified = Rvalue_Qualified,
      deleted = True, access = Private\<rparr>"
| "declaration_of Map_Rvalue =
     \<lparr>template_parameters = [Typename None, Access_Flags, Typename None],
      const_qualified = False, ref_qualified = Rvalue_Qualified,
      deleted = True, access = Private\<rparr>"

definition map_overloads :: "map_overload list" where
  "map_overloads = [Map_Const_Lvalue, Map_Lvalue, Map_Const_Rvalue, Map_Rvalue]"

text \<open>
  Template argument deduction for a call \<^verbatim>\<open>map<args>()\<close>. The explicit arguments are
  matched with the parameters from the left and must be of the parameter's kind. A
  call has no function arguments from which a parameter could be deduced, so each
  parameter that is left takes its default argument; when it has none, or the default
  cannot be formed, deduction fails and the template adds no candidate to the call.
\<close>

fun deduce ::
  "template_parameter list \<Rightarrow> template_argument list \<Rightarrow> template_argument list
     \<Rightarrow> template_argument list option" where
  "deduce [] [] found = Some found"
| "deduce [] (a # explicit) found = None"
| "deduce (Typename d # ps) (Type_Arg t # explicit) found =
     deduce ps explicit (found @ [Type_Arg t])"
| "deduce (Access_Flags # ps) (Value_Arg v # explicit) found =
     deduce ps explicit (found @ [Value_Arg v])"
| "deduce (p # ps) (a # explicit) found = None"
| "deduce (Typename (Some d) # ps) [] found =
     (case d found of
        None \<Rightarrow> None
      | Some t \<Rightarrow> deduce ps [] (found @ [Type_Arg t]))"
| "deduce (p # ps) [] found = None"

text \<open>
  The implicit object parameter of a candidate is a reference to (const) \<^verbatim>\<open>Memory\<close>,
  an lvalue reference for \<^verbatim>\<open>&\<close> and an rvalue reference for \<^verbatim>\<open>&&\<close>. It cannot drop
  the constness of the object; an rvalue reference binds to rvalues only; an lvalue
  reference binds to lvalues, and also to rvalues when it is a reference to const.
\<close>

definition object_binds :: "member_template \<Rightarrow> value_category \<Rightarrow> bool \<Rightarrow> bool" where
  "object_binds f category object_const =
     ((const_qualified f \<or> \<not> object_const) \<and>
      (case ref_qualified f of
         Lvalue_Qualified \<Rightarrow> category = Lvalue \<or> const_qualified f
       | Rvalue_Qualified \<Rightarrow> category = Rvalue))"

text \<open>
  Between two viable candidates, binding an rvalue reference to the rvalue object is
  better than binding an lvalue reference, and binding a reference to a less
  const-qualified type is better.
\<close>

definition better :: "member_template \<Rightarrow> member_template \<Rightarrow> bool" where
  "better f g =
     ((ref_qualified f = Rvalue_Qualified \<and> ref_qualified g = Lvalue_Qualified) \<or>
      (\<not> const_qualified f \<and> const_qualified g))"

definition viable ::
  "value_category \<Rightarrow> bool \<Rightarrow> template_argument list \<Rightarrow> map_overload list" where
  "viable category object_const explicit =
     filter (\<lambda>f. deduce (template_parameters (declaration_of f)) explicit [] \<noteq> None \<and>
                object_binds (declaration_of f) category object_const)
       map_overloads"

text \<open>
  Overload resolution selects the viable candidate that is better than every other
  one. The call is ill-formed when there is no viable candidate, when none is the
  best, when the selected function is deleted, or when it is not accessible.
\<close>

definition resolve_map ::
  "value_category \<Rightarrow> bool \<Rightarrow> template_argument list
     \<Rightarrow> compile_error + (map_overload \<times> template_argument list)" where
  "resolve_map category object_const explicit =
     (let candidates = viable category object_const explicit;
          best = filter (\<lambda>f. list_all (\<lambda>g. g = f \<or> better (declaration_of f) (declaration_of g))
                   candidates) candidates
      in case candidates of
           [] \<Rightarrow> Inl No_Matching_Function
         | c # cs \<Rightarrow>
             (case best of
                [f] \<Rightarrow>
                  (if deleted (declaration_of f) then Inl Use_Of_Deleted_Function
                   else if access (declaration_of f) = Private then Inl Inaccessible_Member
                   else
                     (case deduce (template_parameters (declaration_of f)) explicit [] of
                        None \<Rightarrow> Inl No_Matching_Function
                      | Some args \<Rightarrow> Inr (f, args)))
              | fs \<Rightarrow> Inl Ambiguous_Call))"

text \<open>
  The selected template is instantiated with the deduced arguments; only the two
  templates that are not deleted have a definition.
\<close>

fun instantiate ::
  "(Memory \<Rightarrow> vk_handle) \<Rightarrow> map_overload \<Rightarrow> template_argument list
     \<Rightarrow> compile_error + (Memory \<Rightarrow> Data)" where
  "instantiate map_fn Map_Const_Lvalue [Type_Arg Type, Type_Arg Pointer] =
     Inr (Memory_map_const map_fn Type Pointer)"
| "instantiate map_fn Map_Lvalue [Type_Arg Type, Value_Arg kAccess, Type_Arg Pointer] =
     Memory_map map_fn Type kAccess Pointer"
| "instantiate map_fn Map_Const_Rvalue args = Inl Use_Of_Deleted_Function"
| "instantiate map_fn Map_Rvalue args = Inl Use_Of_Deleted_Function"
| "instantiate map_fn f args = Inl No_Matching_Function"

definition call_map ::
  "(Memory \<Rightarrow> vk_handle) \<Rightarrow> value_category \<Rightarrow> bool \<Rightarrow> template_argument list
     \<Rightarrow> compile_error + (Memory \<Rightarrow> Data)" where
  "call_map map_fn category object_const explicit =
     (case resolve_map category object_const explicit of
        Inl e \<Rightarrow> Inl e
      | Inr (f, args) \<Rightarrow> instantiate map_fn f args)"

section \<open>The sampler cache\<close>

text \<open>
  Modelled from the spec: the class template \<^verbatim>\<open>api::Cache\<close> (Cache.h) and the body of
  \<^verbatim>\<open>Sampler::Factory::operator()\<close> are not part of Resource.h, which only declares
  \<^verbatim>\<open>typedef api::Cache<Factory> Cache\<close>. The specification describes the cache as a
  mapping from sampler descriptors to lazily created sampler objects: given a
  descriptor, it returns the existing sampler if one with an equal descriptor exists;
  otherwise it constructs one via the driver, inserts it and returns it. It never
  evicts an entry on its own.

  A sampler object is identified by its position in the order of construction: each
  construction by the factory yields a new object. The entries are kept in insertion
  order, and keys are compared with the descriptor's \<^verbatim>\<open>operator==\<close>.
\<close>

type_synonym sampler_object = nat

record Sampler_Cache =
  entries :: "(Sampler_Descriptor \<times> sampler_object) list"
  constructed :: nat

definition Sampler_Cache_init :: Sampler_Cache where
  "Sampler_Cache_init = \<lparr>entries = [], constructed = 0\<rparr>"

fun find_sampler ::
  "(Sampler_Descriptor \<times> sampler_object) list \<Rightarrow> Sampler_Descriptor
     \<Rightarrow> sampler_object option" where
  "find_sampler [] d = None"
| "find_sampler ((k, s) # es) d = (if operator_eq k d then Some s else find_sampler es d)"

definition Factory_call ::
  "Sampler_Cache \<Rightarrow> Sampler_Descriptor \<Rightarrow> sampler_object \<times> Sampler_Cache" where
  "Factory_call c d = (constructed c, c\<lparr>constructed := Suc (constructed c)\<rparr>)"

definition retrieve ::
  "Sampler_Cache \<Rightarrow> Sampler_Descriptor \<Rightarrow> sampler_object \<times> Sampler_Cache" where
  "retrieve c d =
     (case find_sampler (entries c) d of
        Some s \<Rightarrow> (s, c)
      | None \<Rightarrow>
          (case Factory_call c d of
             (s, c') \<Rightarrow> (s, c'\<lparr>entries := entries c' @ [(d, s)]\<rparr>)))"

text \<open>
  Purging the cache drops every entry; the samplers constructed so far stay counted,
  so a sampler constructed later is a new object again.
\<close>

definition purge :: "Sampler_Cache \<Rightarrow> Sampler_Cache" where
  "purge c = c\<lparr>entries := []\<rparr>"

text \<open>
  The history of a cache is a sequence of requests and purges; \<open>run\<close> gives the cache
  after it. \<open>sampler_count\<close> is the number of distinct samplers a cache holds.
\<close>

datatype cache_operation = Retrieve Sampler_Descriptor | Purge

fun run :: "Sampler_Cache \<Rightarrow> cache_operation list \<Rightarrow> Sampler_Cache" where
  "run c [] = c"
| "run c (Retrieve d # ops) = run (snd (retrieve c d)) ops"
| "run c (Purge # ops) = run (purge c) ops"

definition sampler_count :: "Sampler_Cache \<Rightarrow> nat" where
  "sampler_count c = length (remdups (map snd (entries c)))"

text \<open>
  The invariant of the cache: the samplers of different entries are different objects,
  and each was constructed before.
\<close>

definition cache_inv :: "Sampler_Cache \<Rightarrow> bool" where
  "cache_inv c \<longleftrightarrow>
     distinct (map snd (entries c)) \<and> list_all (\<lambda>e. snd e < constructed c) (entries c)"

section \<open>Waiting on a fence\<close>

text \<open>
  \<^verbatim>\<open>void wait(uint64_t timeout_nanoseconds = UINT64_MAX)\<close>: a call without an argument
  passes the default argument, a call with an argument passes that argument.
\<close>

definition wait_timeout_nanoseconds :: "64 word option \<Rightarrow> 64 word" where
  "wait_timeout_nanoseconds argument =
     (case argument of None \<Rightarrow> UINT64_MAX | Some timeout \<Rightarrow> timeout)"

text \<open>
  Modelled from the spec: the body of \<^verbatim>\<open>Fence::wait\<close> is not part of Resource.h. The
  specification describes it as a blocking wait: the calling thread is blocked, for up
  to the timeout, until the device signals completion, and a wait on a fence that is
  never signalled returns when the timeout has passed. Time is counted in nanoseconds
  from the call; \<open>signalled\<close> is the time at which the device signals the fence, if it
  ever does. The result is the time for which the call blocks.
\<close>

definition blocking_wait :: "nat option \<Rightarrow> 64 word \<Rightarrow> nat" where
  "blocking_wait signalled timeout =
     (case signalled of
        None \<Rightarrow> unat timeout
      | Some n \<Rightarrow> min n (unat timeout))"

definition Fence_wait :: "nat option \<Rightarrow> 64 word option \<Rightarrow> nat" where
  "Fence_wait signalled argument =
     blocking_wait signalled (wait_timeout_nanoseconds argument)"

section \<open>The pointer type of a mapping\<close>

lemma Read_Write_values: "Read = 1" "Write = 2" "Read OR Write = 3"
  by (simp_all add: Read_def Write_def)

lemma Access_Pointer_cases:
  "Access_Pointer T k =
     (if k AND Write \<noteq> 0 then add_pointer_t T else add_pointer_t (add_const_t T))"
  by (simp add: Access_Pointer_def conditional_t_def)

lemma add_pointer_object:
  "\<not> is_reference_t T \<Longrightarrow> \<not> is_function_t T \<Longrightarrow> add_pointer_t T = PointerTo T"
  by (cases T) simp_all

lemma add_const_object:
  "\<not> is_reference_t T \<Longrightarrow> \<not> is_function_t T \<Longrightarrow>
     add_const_t T = (if is_const_t T then T else Const T)"
  by (cases T) simp_all

lemma add_const_is_const:
  "\<not> is_reference_t T \<Longrightarrow> \<not> is_function_t T \<Longrightarrow>
     is_const_t (add_const_t T) \<and> \<not> is_function_t (add_const_t T)"
  by (cases T) simp_all

text \<open>
  Claim C3, as stated, fails: the pointer's mutability is not determined by the Write
  bit alone, the type argument takes part. With \<^verbatim>\<open>T = const float\<close> and
  \<^verbatim>\<open>kAccess = Write\<close> the pointer is \<^verbatim>\<open>const float*\<close>, which is read-only although
  the Write bit is set. Outside the object types the pointer is not of the two forms
  the claim names: with \<^verbatim>\<open>T = float&\<close> the call \<^verbatim>\<open>map<T>()\<close> on a const memory
  object yields \<^verbatim>\<open>float*\<close>, which is writable, and with the function type
  \<^verbatim>\<open>T = void()\<close> the pointer type is \<^verbatim>\<open>void(*)()\<close> for Write as for Read.
\<close>

theorem C3_pointer_mutability_counterexample:
  "Write AND Write \<noteq> 0 \<and> Read AND Write = 0 \<and>
   \<not> writable_pointer (Access_Pointer (Const (Named ''float'')) Write) \<and>
   writable_pointer
     (pointer_type (map_T (\<lambda>m. 4096) (LvalueRef (Named ''float''))
        \<lparr>allocator = 1, allocation = 2,
         allocation_info = \<lparr>info_offset = 0, info_size = 16, pMappedData = 0\<rparr>\<rparr>)) \<and>
   Access_Pointer (Function (Named ''void'') [] False) Write =
     Access_Pointer (Function (Named ''void'') [] False) Read"
  by (simp add: Access_Pointer_cases Read_Write_values map_T_def Memory_map_const_def)

text \<open>
  Claim C3, amended. Let \<open>T\<close> be an object type or \<^verbatim>\<open>void\<close>, that is, neither a
  reference nor a function type; \<^verbatim>\<open>const T\<close> is \<open>T\<close> itself when \<open>T\<close> is
  const-qualified already. Then \<^verbatim>\<open>map<T>()\<close> yields the read-only pointer
  \<^verbatim>\<open>const T*\<close>. Every instance of \<^verbatim>\<open>map<T, kAccess>()\<close> yields \<^verbatim>\<open>T*\<close> when the Write
  bit of \<^verbatim>\<open>kAccess\<close> is set and \<^verbatim>\<open>const T*\<close> otherwise; its pointer is writable
  exactly when the Write bit is set and \<open>T\<close> is not const-qualified, so for a
  const-qualified \<open>T\<close> it is read-only whatever \<^verbatim>\<open>kAccess\<close> is. With
  \<^verbatim>\<open>kAccess = Read\<close> alone the pointer is \<^verbatim>\<open>const T*\<close> and read-only.
\<close>

theorem C3_pointer_type_by_write_bit:
  assumes "\<not> is_reference_t T" and "\<not> is_function_t T"
  shows "add_const_t T = (if is_const_t T then T else Const T) \<and>
     pointer_type (map_T map_fn T this) = PointerTo (add_const_t T) \<and>
     \<not> writable_pointer (pointer_type (map_T map_fn T this)) \<and>
     (\<forall>f. map_T_kAccess map_fn T kAccess = Inr f \<longrightarrow>
        pointer_type (f this) =
          (if kAccess AND Write \<noteq> 0 then PointerTo T else PointerTo (add_const_t T)) \<and>
        (writable_pointer (pointer_type (f this)) \<longleftrightarrow>
           kAccess AND Write \<noteq> 0 \<and> \<not> is_const_t T)) \<and>
     Access_Pointer T Read = PointerTo (add_const_t T) \<and>
     \<not> writable_pointer (Access_Pointer T Read)"
proof -
  have ptr: "add_pointer_t T = PointerTo T"
    using assms by (rule add_pointer_object)
  have cst: "add_const_t T = (if is_const_t T then T else Const T)"
    using assms by (rule add_const_object)
  have ptr_cst: "add_pointer_t (add_const_t T) = PointerTo (add_const_t T)"
    using assms by (cases T) simp_all
  have ro: "\<not> writable_pointer (PointerTo (add_const_t T))"
    using add_const_is_const [OF assms] by simp
  have rd: "Access_Pointer T Read = PointerTo (add_const_t T)"
    by (simp add: Access_Pointer_cases Read_Write_values ptr_cst)
  have any: "Access_Pointer T kAccess =
      (if kAccess AND Write \<noteq> 0 then PointerTo T else PointerTo (add_const_t T))"
    by (simp add: Access_Pointer_cases ptr ptr_cst)
  have wr: "writable_pointer (Access_Pointer T kAccess) \<longleftrightarrow>
      kAccess AND Write \<noteq> 0 \<and> \<not> is_const_t T"
    using ro assms(2) by (simp add: any)
  have const_map: "pointer_type (map_T map_fn T this) = PointerTo (add_const_t T)"
    by (simp add: map_T_def Memory_map_const_def rd)
  have mut_map: "pointer_type (f this) = Access_Pointer T kAccess"
    if "map_T_kAccess map_fn T kAccess = Inr f" for f
    using that by (auto simp: map_T_kAccess_def Memory_map_def split: if_splits)
  have mut: "\<forall>f. map_T_kAccess map_fn T kAccess = Inr f \<longrightarrow>
        pointer_type (f this) =
          (if kAccess AND Write \<noteq> 0 then PointerTo T else PointerTo (add_const_t T)) \<and>
        (writable_pointer (pointer_type (f this)) \<longleftrightarrow>
           kAccess AND Write \<noteq> 0 \<and> \<not> is_const_t T)"
    using any wr by (simp add: mut_map)
  have const_ro: "\<not> writable_pointer (pointer_type (map_T map_fn T this))"
    unfolding const_map by (rule ro)
  have rd_ro: "\<not> writable_pointer (Access_Pointer T Read)"
    unfolding rd by (rule ro)
  from cst const_map const_ro mut rd rd_ro show ?thesis
    by (intro conjI)
qed

theorem C3_pointer_type_witness:
  "\<not> is_reference_t (Named ''float'') \<and> \<not> is_function_t (Named ''float'') \<and>
   \<not> is_reference_t (Const (Named ''float'')) \<and>
   \<not> is_function_t (Const (Named ''float'')) \<and>
   pointer_type (map_T (\<lambda>m. 4096) (Named ''float'')
       \<lparr>allocator = 1, allocation = 2,
        allocation_info = \<lparr>info_offset = 0, info_size = 16, pMappedData = 0\<rparr>\<rparr>)
     = PointerTo (Const (Named ''float'')) \<and>
   (case map_T_kAccess (\<lambda>m. 4096) (Named ''float'') (Read OR Write) of
      Inl e \<Rightarrow> False
    | Inr f \<Rightarrow> pointer_type (f \<lparr>allocator = 1, allocation = 2,
        allocation_info = \<lparr>info_offset = 0, info_size = 16, pMappedData = 0\<rparr>\<rparr>)
          = PointerTo (Named ''float'')) \<and>
   (case map_T_kAccess (\<lambda>m. 4096) (Const (Named ''float'')) Write of
      Inl e \<Rightarrow> False
    | Inr f \<Rightarrow> pointer_type (f \<lparr>allocator = 1, allocation = 2,
        allocation_info = \<lparr>info_offset = 0, info_size = 16, pMappedData = 0\<rparr>\<rparr>)
          = PointerTo (Const (Named ''float'')))"
  using C3_pointer_type_by_write_bit
    [where T = "Named ''float''" and map_fn = "\<lambda>m. 4096"
       and this = "\<lparr>allocator = 1, allocation = 2,
         allocation_info = \<lparr>info_offset = 0, info_size = 16, pMappedData = 0\<rparr>\<rparr>"
       and kAccess = "Read OR Write"]
    C3_pointer_type_by_write_bit
    [where T = "Const (Named ''float'')" and map_fn = "\<lambda>m. 4096"
       and this = "\<lparr>allocator = 1, allocation = 2,
         allocation_info = \<lparr>info_offset = 0, info_size = 16, pMappedData = 0\<rparr>\<rparr>"
       and kAccess = "Write"]
  by (simp add: map_T_kAccess_def Memory_map_def Read_Write_values)

section \<open>The accepted access flags\<close>

text \<open>
  Claim C4. An instance of \<^verbatim>\<open>map<T, kAccess>()\<close> exists exactly when \<^verbatim>\<open>kAccess\<close> is
  Read, Write or Read|Write. For every other value, in particular for 0 and for every
  value with a bit set outside Read|Write, instantiation stops with the static
  assertion's error: there is no function left that could fail when the program runs.
\<close>

theorem C4_static_access_check:
  "((\<exists>f. map_T_kAccess map_fn T kAccess = Inr f) \<longleftrightarrow>
      kAccess = Read \<or> kAccess = Write \<or> kAccess = (Read OR Write)) \<and>
   (\<not> (kAccess = Read \<or> kAccess = Write \<or> kAccess = (Read OR Write)) \<longrightarrow>
      map_T_kAccess map_fn T kAccess = Inl (Static_Assertion ''Invalid memory access!'')) \<and>
   (kAccess = 0 \<or> kAccess AND NOT (Read OR Write) \<noteq> 0 \<longrightarrow>
      map_T_kAccess map_fn T kAccess = Inl (Static_Assertion ''Invalid memory access!''))"
  by (auto simp: map_T_kAccess_def Memory_map_def Read_Write_values)

theorem C4_static_access_check_witness:
  "map_T_kAccess (\<lambda>m. 4096) (Named ''float'') 0
     = Inl (Static_Assertion ''Invalid memory access!'') \<and>
   map_T_kAccess (\<lambda>m. 4096) (Named ''float'') 5
     = Inl (Static_Assertion ''Invalid memory access!'') \<and>
   (\<exists>f. map_T_kAccess (\<lambda>m. 4096) (Named ''float'') Write = Inr f)"
  using C4_static_access_check [of "\<lambda>m. 4096" "Named ''float''" 0]
    C4_static_access_check [of "\<lambda>m. 4096" "Named ''float''" 5]
    C4_static_access_check [of "\<lambda>m. 4096" "Named ''float''" Write]
  by (simp add: Read_Write_values)

section \<open>Validity of resources\<close>

text \<open>
  Claim C6. A buffer converts to true iff the handle of its object is not the null
  handle, and an image converts to true iff the image handle of its object is not the
  null handle; the layout, the view and the sampler of the image's object play no part.
\<close>

theorem C6_buffer_image_valid_iff_handle:
  "(Buffer_bool b \<longleftrightarrow> Buffer_Object.handle (Buffer.object b) \<noteq> VK_NULL_HANDLE) \<and>
   (Image_bool i \<longleftrightarrow> Image_Object.handle (Image.object i) \<noteq> VK_NULL_HANDLE) \<and>
   Image_bool (i\<lparr>Image.object := (Image.object i)\<lparr>layout := l, view := v, sampler := s\<rparr>\<rparr>)
     = Image_bool i"
  by (auto simp: Buffer_bool_def Buffer_Object_bool_def Image_bool_def Image_Object_bool_def)

theorem C6_buffer_image_valid_witness:
  "Buffer_bool \<lparr>Buffer.object = \<lparr>Buffer_Object.handle = 7, offset = 0, range = 16\<rparr>,
       Buffer.memory = \<lparr>allocator = 1, allocation = 2,
         allocation_info = \<lparr>info_offset = 0, info_size = 16, pMappedData = 0\<rparr>\<rparr>\<rparr> \<and>
   \<not> Image_bool \<lparr>Image.object = \<lparr>Image_Object.handle = 0, layout = 1, view = 5, sampler = 6\<rparr>,
       Image.memory = \<lparr>allocator = 1, allocation = 3,
         allocation_info = \<lparr>info_offset = 0, info_size = 16, pMappedData = 0\<rparr>\<rparr>\<rparr>"
  using C6_buffer_image_valid_iff_handle
    [of "\<lparr>Buffer.object = \<lparr>Buffer_Object.handle = 7, offset = 0, range = 16\<rparr>,
       Buffer.memory = \<lparr>allocator = 1, allocation = 2,
         allocation_info = \<lparr>info_offset = 0, info_size = 16, pMappedData = 0\<rparr>\<rparr>\<rparr>"
        "\<lparr>Image.object = \<lparr>Image_Object.handle = 0, layout = 1, view = 5, sampler = 6\<rparr>,
       Image.memory = \<lparr>allocator = 1, allocation = 3,
         allocation_info = \<lparr>info_offset = 0, info_size = 16, pMappedData = 0\<rparr>\<rparr>\<rparr>"]
  by (simp add: VK_NULL_HANDLE_def)

text \<open>
  Claim C7. A fence converts to true iff its device handle and its fence handle are
  both not the null handle; when either of them is the null handle, it converts to
  false.
\<close>

theorem C7_fence_valid_iff_both_handles:
  "(Fence_bool f \<longleftrightarrow> device f \<noteq> VK_NULL_HANDLE \<and> Fence.handle f \<noteq> VK_NULL_HANDLE) \<and>
   (device f = VK_NULL_HANDLE \<or> Fence.handle f = VK_NULL_HANDLE \<longrightarrow> \<not> Fence_bool f)"
  by (auto simp: Fence_bool_def)

theorem C7_fence_valid_witness:
  "Fence_bool \<lparr>device = 3, Fence.handle = 9\<rparr> \<and>
   \<not> Fence_bool \<lparr>device = 3, Fence.handle = 0\<rparr> \<and>
   \<not> Fence_bool \<lparr>device = 0, Fence.handle = 9\<rparr>"
  using C7_fence_valid_iff_both_handles [of "\<lparr>device = 3, Fence.handle = 9\<rparr>"]
    C7_fence_valid_iff_both_handles [of "\<lparr>device = 3, Fence.handle = 0\<rparr>"]
    C7_fence_valid_iff_both_handles [of "\<lparr>device = 0, Fence.handle = 9\<rparr>"]
  by (simp add: VK_NULL_HANDLE_def)

section \<open>Sampler descriptors as keys\<close>

lemma operator_eq_iff: "operator_eq d1 d2 \<longleftrightarrow> d1 = d2"
  by (cases d1, cases d2) (auto simp: operator_eq_def)

text \<open>
  Claim C10. Equality of sampler descriptors is an equivalence relation: it is
  reflexive, symmetric and transitive.
\<close>

theorem C10_operator_eq_equivalence:
  "operator_eq d d \<and>
   (operator_eq d1 d2 \<longrightarrow> operator_eq d2 d1) \<and>
   (operator_eq d1 d2 \<and> operator_eq d2 d3 \<longrightarrow> operator_eq d1 d3)"
  by (simp add: operator_eq_def)

theorem C10_operator_eq_equivalence_witness:
  "operator_eq \<lparr>filter_mode = 1, mipmap_mode = 0, address_mode = 2, border = 3\<rparr>
     \<lparr>filter_mode = 1, mipmap_mode = 0, address_mode = 2, border = 3\<rparr> \<and>
   \<not> operator_eq \<lparr>filter_mode = 1, mipmap_mode = 0, address_mode = 2, border = 3\<rparr>
     \<lparr>filter_mode = 0, mipmap_mode = 0, address_mode = 2, border = 3\<rparr>"
  using C10_operator_eq_equivalence
    [of "\<lparr>filter_mode = 1, mipmap_mode = 0, address_mode = 2, border = 3\<rparr>"
        "\<lparr>filter_mode = 1, mipmap_mode = 0, address_mode = 2, border = 3\<rparr>"
        "\<lparr>filter_mode = 1, mipmap_mode = 0, address_mode = 2, border = 3\<rparr>"
        "\<lparr>filter_mode = 1, mipmap_mode = 0, address_mode = 2, border = 3\<rparr>"]
  by (simp add: operator_eq_def)

text \<open>
  Claim C2. The hash of a sampler descriptor is consistent with descriptor equality:
  descriptors that compare equal have the same hash, whatever function combines the
  fields, and the hash is a function of the four fields alone, handed over in the
  order filter, mipmap mode, address mode, border colour.
\<close>

theorem C2_hash_consistent_with_equality:
  "(operator_eq d1 d2 \<longrightarrow> Hasher get_hash d1 = Hasher get_hash d2) \<and>
   Hasher get_hash \<lparr>filter_mode = f, mipmap_mode = m, address_mode = a, border = b\<rparr>
     = get_hash f m a b"
  by (simp add: operator_eq_iff Hasher_def)

theorem C2_hash_consistent_witness:
  "operator_eq \<lparr>filter_mode = 1, mipmap_mode = 0, address_mode = 2, border = 3\<rparr>
     \<lparr>filter_mode = 1, mipmap_mode = 0, address_mode = 2, border = 3\<rparr> \<and>
   Hasher (\<lambda>f m a b. ucast f + 31 * ucast m + 961 * ucast a + 29791 * ucast b)
     \<lparr>filter_mode = 1, mipmap_mode = 0, address_mode = 2, border = 3\<rparr> = 91296"
  using C2_hash_consistent_with_equality
    [of "\<lparr>filter_mode = 1, mipmap_mode = 0, address_mode = 2, border = 3\<rparr>"
        "\<lparr>filter_mode = 1, mipmap_mode = 0, address_mode = 2, border = 3\<rparr>"
        "\<lambda>f m a b. ucast f + 31 * ucast m + 961 * ucast a + 29791 * ucast b" 1 0 2 3]
  by (simp add: operator_eq_def)

section \<open>The sampler cache deduplicates\<close>

lemma find_sampler_mem: "find_sampler es d = Some s \<Longrightarrow> (d, s) \<in> set es"
  by (induction es) (auto simp: operator_eq_iff split: if_splits)

lemma find_sampler_append:
  "find_sampler (es @ fs) d =
     (case find_sampler es d of None \<Rightarrow> find_sampler fs d | Some s \<Rightarrow> Some s)"
  by (induction es) auto

lemma retrieve_hit:
  "find_sampler (entries c) d = Some s \<Longrightarrow> retrieve c d = (s, c)"
  by (simp add: retrieve_def)

lemma retrieve_miss:
  "find_sampler (entries c) d = None \<Longrightarrow>
     retrieve c d =
       (constructed c,
        c\<lparr>constructed := Suc (constructed c), entries := entries c @ [(d, constructed c)]\<rparr>)"
  by (simp add: retrieve_def Factory_call_def)

lemma retrieve_then_find:
  "retrieve c d = (s, c') \<Longrightarrow> find_sampler (entries c') d = Some s"
  by (cases "find_sampler (entries c) d")
    (auto simp: retrieve_miss retrieve_hit find_sampler_append operator_eq_iff)

lemma sampler_count_step: "sampler_count (snd (retrieve c d)) \<le> sampler_count c + 1"
proof (cases "find_sampler (entries c) d")
  case None
  have "card (insert (constructed c) (snd ` set (entries c))) \<le> card (snd ` set (entries c)) + 1"
    by (simp add: card_insert_if)
  then show ?thesis
    using None by (simp add: retrieve_miss sampler_count_def length_remdups_card_conv)
next
  case (Some s)
  then show ?thesis by (simp add: retrieve_hit)
qed

lemma cache_inv_init: "cache_inv Sampler_Cache_init"
  by (simp add: cache_inv_def Sampler_Cache_init_def)

lemma cache_inv_retrieve: "cache_inv c \<Longrightarrow> cache_inv (snd (retrieve c d))"
proof (cases "find_sampler (entries c) d")
  case None
  assume "cache_inv c"
  then show ?thesis
    using None by (auto simp: retrieve_miss cache_inv_def list_all_iff less_Suc_eq)
next
  case (Some s)
  assume "cache_inv c"
  then show ?thesis using Some by (simp add: retrieve_hit)
qed

lemma cache_inv_purge: "cache_inv c \<Longrightarrow> cache_inv (purge c)"
  by (simp add: cache_inv_def purge_def)

lemma cache_inv_run: "cache_inv c \<Longrightarrow> cache_inv (run c ops)"
proof (induction ops arbitrary: c)
  case Nil
  then show ?case by simp
next
  case (Cons op ops)
  then show ?case
    by (cases op) (simp_all add: cache_inv_retrieve cache_inv_purge)
qed

lemma sampler_count_inv: "cache_inv c \<Longrightarrow> sampler_count c = length (entries c)"
  by (simp add: cache_inv_def sampler_count_def distinct_remdups_id)

lemma retrieve_distinct:
  assumes inv: "cache_inv c" and ne: "d1 \<noteq> d2"
    and r1: "retrieve c d1 = (s1, c1)" and r2: "retrieve c1 d2 = (s2, c2)"
  shows "s1 \<noteq> s2"
proof -
  have inv1: "cache_inv c1"
    using cache_inv_retrieve [OF inv, of d1] r1 by simp
  have m1: "(d1, s1) \<in> set (entries c1)"
    using retrieve_then_find [OF r1] by (rule find_sampler_mem)
  show ?thesis
  proof (cases "find_sampler (entries c1) d2")
    case None
    have "s2 = constructed c1"
      using r2 None by (simp add: retrieve_miss)
    moreover have "s1 < constructed c1"
      using inv1 m1 by (auto simp: cache_inv_def list_all_iff)
    ultimately show ?thesis by simp
  next
    case (Some s)
    have "s = s2"
      using r2 Some by (simp add: retrieve_hit)
    then have m2: "(d2, s2) \<in> set (entries c1)"
      using Some find_sampler_mem by blast
    have inj: "inj_on snd (set (entries c1))"
      using inv1 by (simp add: cache_inv_def distinct_map)
    show ?thesis
    proof
      assume "s1 = s2"
      then have same: "snd (d1, s1) = snd (d2, s2)" by simp
      from inj same m1 m2 have "(d1, s1) = (d2, s2)" by (rule inj_onD)
      with ne show False by simp
    qed
  qed
qed

text \<open>
  Claim C1. When \<open>d1\<close> and \<open>d2\<close> compare equal, requesting a sampler for \<open>d1\<close> and then
  for \<open>d2\<close> from the same cache returns the same sampler object, and the number of
  distinct samplers in the cache grows by at most one over the two requests.
\<close>

theorem C1_equal_descriptors_share_sampler:
  assumes "operator_eq d1 d2"
    and "retrieve c d1 = (s1, c1)" and "retrieve c1 d2 = (s2, c2)"
  shows "s1 = s2 \<and> sampler_count c2 \<le> sampler_count c + 1"
proof -
  have eq: "d2 = d1"
    using assms(1) by (simp add: operator_eq_iff)
  have found: "find_sampler (entries c1) d2 = Some s1"
    using retrieve_then_find [OF assms(2)] eq by simp
  then have second: "retrieve c1 d2 = (s1, c1)"
    by (rule retrieve_hit)
  have "sampler_count c1 \<le> sampler_count c + 1"
    using sampler_count_step [of c d1] assms(2) by simp
  then show ?thesis
    using second assms(3) by simp
qed

theorem C1_equal_descriptors_witness:
  "operator_eq \<lparr>filter_mode = 1, mipmap_mode = 0, address_mode = 2, border = 3\<rparr>
     \<lparr>filter_mode = 1, mipmap_mode = 0, address_mode = 2, border = 3\<rparr> \<and>
   fst (retrieve Sampler_Cache_init
     \<lparr>filter_mode = 1, mipmap_mode = 0, address_mode = 2, border = 3\<rparr>) =
   fst (retrieve (snd (retrieve Sampler_Cache_init
       \<lparr>filter_mode = 1, mipmap_mode = 0, address_mode = 2, border = 3\<rparr>))
     \<lparr>filter_mode = 1, mipmap_mode = 0, address_mode = 2, border = 3\<rparr>) \<and>
   sampler_count (snd (retrieve (snd (retrieve Sampler_Cache_init
       \<lparr>filter_mode = 1, mipmap_mode = 0, address_mode = 2, border = 3\<rparr>))
     \<lparr>filter_mode = 1, mipmap_mode = 0, address_mode = 2, border = 3\<rparr>)) = 1"
  using C1_equal_descriptors_share_sampler
    [of "\<lparr>filter_mode = 1, mipmap_mode = 0, address_mode = 2, border = 3\<rparr>"
        "\<lparr>filter_mode = 1, mipmap_mode = 0, address_mode = 2, border = 3\<rparr>"
        Sampler_Cache_init 0
        "\<lparr>entries = [(\<lparr>filter_mode = 1, mipmap_mode = 0, address_mode = 2, border = 3\<rparr>, 0)],
          constructed = 1\<rparr>"
        0
        "\<lparr>entries = [(\<lparr>filter_mode = 1, mipmap_mode = 0, address_mode = 2, border = 3\<rparr>, 0)],
          constructed = 1\<rparr>"]
  by (simp add: retrieve_def Factory_call_def Sampler_Cache_init_def operator_eq_def
      sampler_count_def)

text \<open>
  Claim C8. Descriptors that differ in one of the four fields compare unequal, and in
  every cache reached from the empty one by a sequence of requests and purges,
  requesting a sampler for each of the two yields two different sampler objects.
\<close>

theorem C8_different_descriptors_distinct_samplers:
  assumes "filter_mode d1 \<noteq> filter_mode d2 \<or> mipmap_mode d1 \<noteq> mipmap_mode d2 \<or>
      address_mode d1 \<noteq> address_mode d2 \<or> border d1 \<noteq> border d2"
    and "c = run Sampler_Cache_init ops"
    and "retrieve c d1 = (s1, c1)" and "retrieve c1 d2 = (s2, c2)"
  shows "\<not> operator_eq d1 d2 \<and> s1 \<noteq> s2"
proof -
  have ne: "\<not> operator_eq d1 d2"
    using assms(1) by (auto simp: operator_eq_def)
  then have "d1 \<noteq> d2"
    by (simp add: operator_eq_iff)
  moreover have "cache_inv c"
    using assms(2) cache_inv_init by (simp add: cache_inv_run)
  ultimately have "s1 \<noteq> s2"
    using assms(3) assms(4) by (simp add: retrieve_distinct [of c d1 d2 s1 c1 s2 c2])
  with ne show ?thesis by simp
qed

theorem C8_different_descriptors_witness:
  "border \<lparr>filter_mode = 1, mipmap_mode = 0, address_mode = 2, border = 3\<rparr> \<noteq> border \<lparr>filter_mode = 1, mipmap_mode = 0, address_mode = 2, border = 4\<rparr> \<and>
   \<not> operator_eq \<lparr>filter_mode = 1, mipmap_mode = 0, address_mode = 2, border = 3\<rparr> \<lparr>filter_mode = 1, mipmap_mode = 0, address_mode = 2, border = 4\<rparr> \<and>
   fst (retrieve (run Sampler_Cache_init [Retrieve \<lparr>filter_mode = 1, mipmap_mode = 0, address_mode = 2, border = 3\<rparr>]) \<lparr>filter_mode = 1, mipmap_mode = 0, address_mode = 2, border = 3\<rparr>) = 0 \<and>
   fst (retrieve (snd (retrieve (run Sampler_Cache_init [Retrieve \<lparr>filter_mode = 1, mipmap_mode = 0, address_mode = 2, border = 3\<rparr>]) \<lparr>filter_mode = 1, mipmap_mode = 0, address_mode = 2, border = 3\<rparr>)) \<lparr>filter_mode = 1, mipmap_mode = 0, address_mode = 2, border = 4\<rparr>) = 1"
  using C8_different_descriptors_distinct_samplers
    [of "\<lparr>filter_mode = 1, mipmap_mode = 0, address_mode = 2, border = 3\<rparr>" "\<lparr>filter_mode = 1, mipmap_mode = 0, address_mode = 2, border = 4\<rparr>"
        "\<lparr>entries = [(\<lparr>filter_mode = 1, mipmap_mode = 0, address_mode = 2, border = 3\<rparr>, 0)], constructed = 1\<rparr>"
        "[Retrieve \<lparr>filter_mode = 1, mipmap_mode = 0, address_mode = 2, border = 3\<rparr>]" 0
        "\<lparr>entries = [(\<lparr>filter_mode = 1, mipmap_mode = 0, address_mode = 2, border = 3\<rparr>, 0)], constructed = 1\<rparr>"
        1
        "\<lparr>entries = [(\<lparr>filter_mode = 1, mipmap_mode = 0, address_mode = 2, border = 3\<rparr>, 0), (\<lparr>filter_mode = 1, mipmap_mode = 0, address_mode = 2, border = 4\<rparr>, 1)], constructed = 2\<rparr>"]
  by (simp add: retrieve_def Factory_call_def Sampler_Cache_init_def operator_eq_def)

section \<open>The timeout of a fence wait\<close>

lemma UINT64_MAX_greatest: "t \<le> UINT64_MAX"
proof -
  have "unat t < 2 ^ LENGTH(64)"
    by (rule unsigned_less)
  then show ?thesis
    by (simp add: word_le_nat_alt UINT64_MAX_def)
qed

lemma unat_UINT64_MAX: "unat UINT64_MAX = 18446744073709551615"
  by (simp add: UINT64_MAX_def)

lemma blocking_wait_mono:
  "t \<le> t' \<Longrightarrow> blocking_wait signalled t \<le> blocking_wait signalled t'"
  by (cases signalled) (auto simp: blocking_wait_def word_le_nat_alt min_def)

text \<open>
  Claim C9. \<^verbatim>\<open>Fence::wait\<close> takes the timeout from its caller, and without an argument
  the timeout is \<^verbatim>\<open>UINT64_MAX\<close>, the greatest value a timeout can have. A call with a
  timeout blocks no longer than that timeout. A call without an argument blocks at
  least as long as a call with any timeout: it returns with the signal whenever the
  fence is signalled within \<^verbatim>\<open>UINT64_MAX\<close> nanoseconds, and a fence that is never
  signalled blocks it for all of them.
\<close>

theorem C9_fence_wait_timeout:
  "wait_timeout_nanoseconds None = UINT64_MAX \<and>
   wait_timeout_nanoseconds (Some t) = t \<and>
   t \<le> wait_timeout_nanoseconds None \<and>
   Fence_wait signalled (Some t) \<le> unat t \<and>
   Fence_wait signalled (Some t) \<le> Fence_wait signalled None \<and>
   (n \<le> 18446744073709551615 \<longrightarrow> Fence_wait (Some n) None = n) \<and>
   Fence_wait None None = 18446744073709551615"
proof -
  have "Fence_wait signalled (Some t) \<le> unat t"
    by (cases signalled) (simp_all add: Fence_wait_def wait_timeout_nanoseconds_def
        blocking_wait_def)
  moreover have "Fence_wait signalled (Some t) \<le> Fence_wait signalled None"
    using blocking_wait_mono [OF UINT64_MAX_greatest, where t = t and signalled = signalled]
    by (simp add: Fence_wait_def wait_timeout_nanoseconds_def)
  moreover have "n \<le> 18446744073709551615 \<longrightarrow> Fence_wait (Some n) None = n"
    by (simp add: Fence_wait_def wait_timeout_nanoseconds_def blocking_wait_def
        unat_UINT64_MAX)
  moreover have "Fence_wait None None = 18446744073709551615"
    by (simp add: Fence_wait_def wait_timeout_nanoseconds_def blocking_wait_def
        unat_UINT64_MAX)
  ultimately show ?thesis
    by (simp add: wait_timeout_nanoseconds_def UINT64_MAX_greatest)
qed

theorem C9_fence_wait_timeout_witness:
  "Fence_wait None (Some 1000) = 1000 \<and>
   Fence_wait (Some 250) (Some 1000) = 250 \<and>
   (5000000000 :: nat) \<le> 18446744073709551615 \<and>
   Fence_wait (Some 5000000000) None = 5000000000"
  using C9_fence_wait_timeout [where t = 1000 and signalled = None and n = 5000000000]
    C9_fence_wait_timeout [where t = 1000 and signalled = "Some 250" and n = 5000000000]
  by (simp add: Fence_wait_def wait_timeout_nanoseconds_def blocking_wait_def)

section \<open>Calling map on a temporary\<close>

lemmas resolve_map_unfold =
  resolve_map_def viable_def map_overloads_def object_binds_def better_def

text \<open>Calls on an lvalue select the two templates that have a definition.\<close>

lemma map_T_on_lvalue:
  "resolve_map Lvalue object_const [Type_Arg T] =
     Inr (Map_Const_Lvalue, [Type_Arg T, Type_Arg (Access_Pointer T Read)])"
  by (simp add: resolve_map_unfold)

lemma map_T_kAccess_on_lvalue:
  "resolve_map Lvalue False [Type_Arg T, Value_Arg k] =
     Inr (Map_Lvalue, [Type_Arg T, Value_Arg k, Type_Arg (Access_Pointer T k)])"
  by (simp add: resolve_map_unfold)

text \<open>
  \<^verbatim>\<open>map<T, kAccess>()\<close> on an rvalue is ill-formed: the \<^verbatim>\<open>&\<close> template does not bind to
  it, and the deleted \<^verbatim>\<open>&&\<close> template adds no candidate, since its \<^verbatim>\<open>Pointer\<close> has
  no default argument. The deleted templates are selected only when the caller spells
  the pointer type out.
\<close>

lemma map_T_kAccess_on_rvalue:
  "resolve_map Rvalue object_const [Type_Arg T, Value_Arg k] = Inl No_Matching_Function"
  by (simp add: resolve_map_unfold)

lemma map_explicit_Pointer_on_rvalue:
  "resolve_map Rvalue object_const [Type_Arg T, Type_Arg P] = Inl Use_Of_Deleted_Function"
  "resolve_map Rvalue False [Type_Arg T, Value_Arg k, Type_Arg P] = Inl Use_Of_Deleted_Function"
  by (simp_all add: resolve_map_unfold)

lemma map_T_on_rvalue:
  "resolve_map Rvalue object_const [Type_Arg T] =
     Inr (Map_Const_Lvalue, [Type_Arg T, Type_Arg (Access_Pointer T Read)])"
  by (simp add: resolve_map_unfold)

text \<open>
  Claim C5 says that both forms of \<^verbatim>\<open>map\<close> are rejected at compile time on a temporary
  \<^verbatim>\<open>Memory\<close>. For \<^verbatim>\<open>map<T>()\<close> the code does not do that: the call
  \<^verbatim>\<open>map<float>()\<close> on a non-const rvalue is well-formed. The deleted \<^verbatim>\<open>const &&\<close>
  template gives no default to \<^verbatim>\<open>Pointer\<close>, so deduction fails for it and it adds no
  candidate; the \<^verbatim>\<open>const &\<close> template is the only candidate, binds to the rvalue and
  is selected. The call returns a \<^verbatim>\<open>const float*\<close> with a scope of Read access on the
  temporary.
\<close>

theorem C5_map_T_on_temporary_accepted:
  "resolve_map Rvalue False [Type_Arg (Named ''float'')] =
     Inr (Map_Const_Lvalue,
       [Type_Arg (Named ''float''), Type_Arg (PointerTo (Const (Named ''float'')))]) \<and>
   (case call_map (\<lambda>m. 4096) Rvalue False [Type_Arg (Named ''float'')] of
      Inl e \<Rightarrow> False
    | Inr f \<Rightarrow>
        f \<lparr>allocator = 1, allocation = 2,
           allocation_info = \<lparr>info_offset = 0, info_size = 16, pMappedData = 0\<rparr>\<rparr> =
        \<lparr>pointer_type = PointerTo (Const (Named ''float'')), payload = 4096,
         deleter = \<lparr>scope_allocator = 1, scope_allocation = 2, scope_access = Read\<rparr>\<rparr>)"
  by (simp add: call_map_def resolve_map_unfold Access_Pointer_cases Read_Write_values
      Memory_map_const_def)

end
